theory Spec2Isabelle
  imports Main
begin

section \<open>The notebook \<open>transformer_example.ipynb\<close> as a state-passing program\<close>

text \<open>
  The repository is one Jupyter notebook with eight code cells. It loads a trained
  spaCy pipeline, applies it once to a Japanese sentence, prints fields of the resulting
  \<open>Doc\<close> in five \<open>for\<close> loops and asks \<open>displacy\<close> for two renderings.
  The pipeline and the renderer belong to the spaCy library, not to the repository: they
  are the fields of an environment record that every definition below takes as an
  argument, and nothing is assumed about what they return.

  The cells are run top to bottom in one kernel; the first exception ends the run
  (what \<open>Run All\<close> does). The two \<open>import\<close> statements are taken to succeed.
\<close>

subsection \<open>Python values\<close>

text \<open>
  A Python \<open>str\<close> is a sequence of Unicode code points, and the character offsets of an
  entity span count code points, so a \<open>str\<close> is a list of code points here. ASCII
  literals of the source are written with \<open>lit\<close>.
\<close>

type_synonym str = "nat list"

definition lit :: "string \<Rightarrow> str" where
  "lit s = map of_char s"

definition tab :: str where
  "tab = [9]"

text \<open>\<open>str(n)\<close> for a Python \<open>int\<close>: decimal digits, with a minus sign below zero.\<close>

fun str_nat :: "nat \<Rightarrow> str" where
  "str_nat n = (if n < 10 then [48 + n] else str_nat (n div 10) @ [48 + n mod 10])"

declare str_nat.simps [simp del]

definition str_int :: "int \<Rightarrow> str" where
  "str_int i = (if i < 0 then 45 # str_nat (nat (- i)) else str_nat (nat i))"

definition str_bool :: "bool \<Rightarrow> str" where
  "str_bool b = (if b then lit ''True'' else lit ''False'')"

text \<open>The values the notebook hands to \<open>print\<close>, and \<open>str()\<close> of each.\<close>

datatype pyval = PStr str | PInt int | PBool bool

fun py_str :: "pyval \<Rightarrow> str" where
  "py_str (PStr s) = s"
| "py_str (PInt i) = str_int i"
| "py_str (PBool b) = str_bool b"

text \<open>\<open>sep.join(parts)\<close>.\<close>

fun join :: "str \<Rightarrow> str list \<Rightarrow> str" where
  "join sep [] = []"
| "join sep [x] = x"
| "join sep (x # y # ys) = x @ sep @ join sep (y # ys)"

subsection \<open>The objects of the library that the notebook reads\<close>

text \<open>
  Only the attributes that the notebook reads are fields. A field is named after its
  class and its attribute, without the attribute's final underscore: \<open>token_lemma\<close> is
  \<open>token.lemma_\<close>, \<open>span_label\<close> is \<open>ent.label_\<close>. \<open>token_morph\<close> holds
  \<open>str(token.morph)\<close>, the only use the notebook makes of it.
\<close>

record token =
  token_text :: str
  token_lemma :: str
  token_pos :: str
  token_tag :: str
  token_dep :: str
  token_morph :: str
  token_ent_iob :: str
  token_ent_type :: str
  token_shape :: str
  token_is_alpha :: bool
  token_is_stop :: bool

record span =
  span_text :: str
  span_start_char :: int
  span_end_char :: int
  span_label :: str

text \<open>A \<open>Doc\<close>: the tokens that iterating over it yields, and its property \<open>ents\<close>.\<close>

record doc =
  doc_tokens :: "token list"
  doc_ents :: "span list"

text \<open>The values of the dictionary \<open>options\<close>; a dictionary literal keeps its order.\<close>

datatype opt_val = OBool bool | OStr str

type_synonym options = "(str \<times> opt_val) list"

datatype error = NameError str | LibraryError str

text \<open>
  The library, as far as the notebook calls it: \<open>spacy.load\<close> gives a pipeline or
  raises, the pipeline applied to a string gives a \<open>Doc\<close> or raises, and
  \<open>displacy.render\<close> gives markup or raises.
\<close>

type_synonym language = "str \<Rightarrow> error + doc"

record env =
  spacy_load :: "str \<Rightarrow> error + language"
  displacy_render :: "doc \<Rightarrow> str \<Rightarrow> options \<Rightarrow> error + str"

subsection \<open>The kernel: variables and what a run has done so far\<close>

text \<open>
  The trace holds, in order, every call into the library and everything shown under a
  cell: a \<open>Print\<close> for each call of \<open>print\<close> (with the text written, newline included)
  and a \<open>Display\<close> for the markup that \<open>displacy.render\<close> shows in a notebook.
  \<open>Call_iter\<close> is the call that gives the iterator of a \<open>Doc\<close>, and \<open>Call_next i\<close>
  is one request to that iterator for its next token, made when it stands at position \<open>i\<close>:
  the tokens of a \<open>Doc\<close> come one request at a time.
\<close>

datatype event =
    Call_load str
  | Call_nlp str
  | Call_iter doc
  | Call_next nat
  | Get_ents doc
  | Call_render doc str options
  | Print str
  | Display str

record state =
  v_nlp :: "language option"
  v_sentence :: "str option"
  v_doc :: "doc option"
  v_options :: "options option"
  out :: "event list"

datatype outcome = Completed state | Raised error state

definition fresh_kernel :: state where
  "fresh_kernel = \<lparr>v_nlp = None, v_sentence = None, v_doc = None, v_options = None, out = []\<rparr>"

definition emit :: "event \<Rightarrow> state \<Rightarrow> state" where
  "emit ev st = st\<lparr>out := out st @ [ev]\<rparr>"

text \<open>\<open>print(*args)\<close>: the arguments' \<open>str()\<close>, separated by one space, then a newline.\<close>

definition line :: "pyval list \<Rightarrow> str" where
  "line args = join (lit '' '') (map py_str args) @ lit ''\<newline>''"

definition py_print :: "pyval list \<Rightarrow> state \<Rightarrow> state" where
  "py_print args st = emit (Print (line args)) st"

subsection \<open>The \<open>for\<close> statement\<close>

text \<open>
  \<open>for x in xs: body\<close> asks the iterator for the next item, runs the body on it, and
  asks again, until a request finds the iterator at its end. An iterator is a position in
  a sequence. \<open>asked\<close> is what one request leaves in the kernel: a \<open>Call_next\<close> in the
  trace when the iterator is the library's (the generator of a \<open>Doc\<close>), nothing when
  it is Python's own (the iterator of the tuple \<open>doc.ents\<close>).
\<close>

record 'a iterator =
  items :: "'a list"
  pos :: nat

definition iter :: "'a list \<Rightarrow> 'a iterator" where
  "iter xs = \<lparr>items = xs, pos = 0\<rparr>"

definition next_item :: "'a iterator \<Rightarrow> ('a \<times> 'a iterator) option" where
  "next_item it =
     (if pos it < length (items it)
      then Some (items it ! pos it, it\<lparr>pos := Suc (pos it)\<rparr>)
      else None)"

function for_each ::
  "(nat \<Rightarrow> state \<Rightarrow> state) \<Rightarrow> ('a \<Rightarrow> state \<Rightarrow> state) \<Rightarrow> 'a iterator \<Rightarrow> state \<Rightarrow> state"
where
  "for_each asked body it st =
     (case next_item it of
        None \<Rightarrow> asked (pos it) st
      | Some (x, it') \<Rightarrow> for_each asked body it' (body x (asked (pos it) st)))"
  by pat_completeness auto
termination
  by (relation "measure (\<lambda>(asked, body, it, st). length (items it) - pos it)")
     (auto simp: next_item_def split: if_splits)

declare for_each.simps [simp del]

definition library_asked :: "nat \<Rightarrow> state \<Rightarrow> state" where
  "library_asked i st = emit (Call_next i) st"

definition builtin_asked :: "nat \<Rightarrow> state \<Rightarrow> state" where
  "builtin_asked i st = st"

subsection \<open>The code cells\<close>

definition model_name :: str where
  "model_name = lit ''ja_core_news_trf''"

text \<open>The sentence of the first cell, 28 code points.\<close>

definition sentence :: str where
  "sentence =
     [26666, 24335, 20250, 31038, 12458, 12540, 12503, 12531, 65, 73, 12399, 26481, 20140,
      37117, 28171, 35895, 21306, 12395, 26412, 31038, 12434, 27083, 12360, 12390, 12356,
      12414, 12377, 12290]"

text \<open>
  Lines 22 to 29: \<open>nlp = spacy.load("ja_core_news_trf")\<close>, \<open>sentence = "..."\<close>,
  \<open>doc = nlp(sentence)\<close>. The string literal is the argument \<open>s\<close>, so that the cell
  can be studied for every input string; the notebook is the instance \<open>s = sentence\<close>.
\<close>

definition cell_load :: "env \<Rightarrow> str \<Rightarrow> state \<Rightarrow> outcome" where
  "cell_load e s st =
     (let st1 = emit (Call_load model_name) st in
      case spacy_load e model_name of
        Inl err \<Rightarrow> Raised err st1
      | Inr p \<Rightarrow>
          (let st2 = st1\<lparr>v_nlp := Some p\<rparr>;
               st3 = st2\<lparr>v_sentence := Some s\<rparr>;
               st4 = emit (Call_nlp s) st3
           in case p s of
                Inl err \<Rightarrow> Raised err st4
              | Inr d \<Rightarrow> Completed (st4\<lparr>v_doc := Some d\<rparr>)))"

text \<open>A loop \<open>for token in doc: print(...)\<close>, for the arguments that one cell prints.\<close>

definition token_loop :: "(token \<Rightarrow> pyval list) \<Rightarrow> state \<Rightarrow> outcome" where
  "token_loop args st =
     (case v_doc st of
        None \<Rightarrow> Raised (NameError (lit ''doc'')) st
      | Some d \<Rightarrow>
          Completed
            (for_each library_asked (\<lambda>t. py_print (args t)) (iter (doc_tokens d))
               (emit (Call_iter d) st)))"

text \<open>The f-string \<open>f"{token.ent_iob_}-{token.ent_type_}"\<close>.\<close>

definition iob_type :: "token \<Rightarrow> str" where
  "iob_type t = token_ent_iob t @ lit ''-'' @ token_ent_type t"

text \<open>Lines 75 to 77.\<close>

definition annotation_args :: "token \<Rightarrow> pyval list" where
  "annotation_args t =
     [PStr (token_text t), PStr (iob_type t), PStr (token_tag t), PStr (token_pos t), PStr (token_dep t),
      PStr (token_morph t)]"

definition cell_annotations :: "state \<Rightarrow> outcome" where
  "cell_annotations st = token_loop annotation_args st"

text \<open>Lines 120 and 121.\<close>

definition tokenization_args :: "token \<Rightarrow> pyval list" where
  "tokenization_args t = [PStr (token_text t)]"

definition cell_tokenization :: "state \<Rightarrow> outcome" where
  "cell_tokenization st = token_loop tokenization_args st"

text \<open>Lines 179 to 182: a header, then the loop.\<close>

definition pos_header :: str where
  "pos_header =
     lit ''TEXT'' @ tab @ lit ''LEMMA'' @ tab @ lit ''POS'' @ tab @ lit ''TAG'' @ tab @
     lit ''DEP'' @ tab @ lit ''SHAPE'' @ tab @ lit ''ALPHA'' @ tab @ lit ''STOP''"

definition pos_args :: "token \<Rightarrow> pyval list" where
  "pos_args t =
     [PStr (token_text t), PStr (token_lemma t), PStr (token_pos t), PStr (token_tag t), PStr (token_dep t),
      PStr (token_shape t), PBool (token_is_alpha t), PBool (token_is_stop t)]"

definition cell_pos_table :: "state \<Rightarrow> outcome" where
  "cell_pos_table st = token_loop pos_args (py_print [PStr pos_header] st)"

text \<open>Lines 412 to 415 and line 534: the two calls of \<open>displacy.render\<close>.\<close>

definition options_literal :: options where
  "options_literal =
     [(lit ''compact'', OBool True),
      (lit ''bg'', OStr (lit ''#09a3d5'')),
      (lit ''color'', OStr (lit ''white'')),
      (lit ''font'', OStr (lit ''Source Sans Pro''))]"

definition render :: "env \<Rightarrow> doc \<Rightarrow> str \<Rightarrow> options \<Rightarrow> state \<Rightarrow> outcome" where
  "render e d style opts st =
     (let st1 = emit (Call_render d style opts) st in
      case displacy_render e d style opts of
        Inl err \<Rightarrow> Raised err st1
      | Inr markup \<Rightarrow> Completed (emit (Display markup) st1))"

definition cell_render_dep :: "env \<Rightarrow> state \<Rightarrow> outcome" where
  "cell_render_dep e st =
     (let st1 = st\<lparr>v_options := Some options_literal\<rparr> in
      case v_doc st1 of
        None \<Rightarrow> Raised (NameError (lit ''doc'')) st1
      | Some d \<Rightarrow> render e d (lit ''dep'') options_literal st1)"

definition cell_render_ent :: "env \<Rightarrow> state \<Rightarrow> outcome" where
  "cell_render_ent e st =
     (case v_doc st of
        None \<Rightarrow> Raised (NameError (lit ''doc'')) st
      | Some d \<Rightarrow>
          (case v_options st of
             None \<Rightarrow> Raised (NameError (lit ''options'')) st
           | Some opts \<Rightarrow> render e d (lit ''ent'') opts st))"

text \<open>Lines 449 and 450: \<open>for ent in doc.ents: print(...)\<close>.\<close>

definition ent_args :: "span \<Rightarrow> pyval list" where
  "ent_args x = [PStr (span_text x), PInt (span_start_char x), PInt (span_end_char x), PStr (span_label x)]"

definition cell_ents :: "state \<Rightarrow> outcome" where
  "cell_ents st =
     (case v_doc st of
        None \<Rightarrow> Raised (NameError (lit ''doc'')) st
      | Some d \<Rightarrow>
          Completed
            (for_each builtin_asked (\<lambda>x. py_print (ent_args x)) (iter (doc_ents d))
               (emit (Get_ents d) st)))"

text \<open>Lines 491 and 492.\<close>

definition ent_iob_args :: "token \<Rightarrow> pyval list" where
  "ent_iob_args t = [PStr (token_text t), PStr (iob_type t)]"

definition cell_ent_iob :: "state \<Rightarrow> outcome" where
  "cell_ent_iob st = token_loop ent_iob_args st"

subsection \<open>A run of the notebook\<close>

definition next_cell :: "outcome \<Rightarrow> (state \<Rightarrow> outcome) \<Rightarrow> outcome" where
  "next_cell r c = (case r of Completed st \<Rightarrow> c st | Raised err st \<Rightarrow> Raised err st)"

definition cells :: "env \<Rightarrow> str \<Rightarrow> (state \<Rightarrow> outcome) list" where
  "cells e s =
     [cell_load e s, cell_annotations, cell_tokenization, cell_pos_table, cell_render_dep e,
      cell_ents, cell_ent_iob, cell_render_ent e]"

definition demo_from :: "env \<Rightarrow> str \<Rightarrow> state \<Rightarrow> outcome" where
  "demo_from e s st = foldl next_cell (Completed st) (cells e s)"

definition demo :: "env \<Rightarrow> str \<Rightarrow> outcome" where
  "demo e s = demo_from e s fresh_kernel"

definition notebook :: "env \<Rightarrow> outcome" where
  "notebook e = demo e sentence"

subsection \<open>Reading a run\<close>

fun trace :: "outcome \<Rightarrow> event list" where
  "trace (Completed st) = out st"
| "trace (Raised err st) = out st"

fun final :: "outcome \<Rightarrow> state" where
  "final (Completed st) = st"
| "final (Raised err st) = st"

fun raised :: "outcome \<Rightarrow> error option" where
  "raised (Completed st) = None"
| "raised (Raised err st) = Some err"

text \<open>The text written by \<open>print\<close>, call by call.\<close>

fun printed :: "event list \<Rightarrow> str list" where
  "printed [] = []"
| "printed (Print s # evs) = s # printed evs"
| "printed (ev # evs) = printed evs"

text \<open>What a reader of the notebook sees: printed text and displayed markup.\<close>

fun shown :: "event list \<Rightarrow> event list" where
  "shown [] = []"
| "shown (Print s # evs) = Print s # shown evs"
| "shown (Display m # evs) = Display m # shown evs"
| "shown (ev # evs) = shown evs"

fun load_calls :: "event list \<Rightarrow> str list" where
  "load_calls [] = []"
| "load_calls (Call_load n # evs) = n # load_calls evs"
| "load_calls (ev # evs) = load_calls evs"

fun nlp_calls :: "event list \<Rightarrow> str list" where
  "nlp_calls [] = []"
| "nlp_calls (Call_nlp s # evs) = s # nlp_calls evs"
| "nlp_calls (ev # evs) = nlp_calls evs"

fun render_requests :: "event list \<Rightarrow> (doc \<times> str \<times> options) list" where
  "render_requests [] = []"
| "render_requests (Call_render d style opts # evs) = (d, style, opts) # render_requests evs"
| "render_requests (ev # evs) = render_requests evs"

text \<open>The \<open>Doc\<close> that each loop and each rendering request was given, in order.\<close>

fun observed_docs :: "event list \<Rightarrow> doc list" where
  "observed_docs [] = []"
| "observed_docs (Call_iter d # evs) = d # observed_docs evs"
| "observed_docs (Get_ents d # evs) = d # observed_docs evs"
| "observed_docs (Call_render d style opts # evs) = d # observed_docs evs"
| "observed_docs (ev # evs) = observed_docs evs"



subsection \<open>The run that the notebook records\<close>

text \<open>
  The notebook file stores the output of its last run. Each token below is read off the
  lines printed under the cells of lines 75 and 180, each entity span off the lines
  printed under the cell of line 449. This is the only \<open>Doc\<close> of which the repository
  holds any evidence.
\<close>

definition recorded_token_0 :: token where
  "recorded_token_0 = \<lparr>token_text = [26666, 24335], token_lemma = [26666, 24335],
     token_pos = lit ''NOUN'', token_tag = [21517, 35422, 45, 26222, 36890, 21517, 35422, 45,
       19968, 33324],
     token_dep = lit ''compound'', token_morph = [82, 101, 97, 100, 105, 110, 103, 61, 12459,
       12502, 12471, 12461],
     token_ent_iob = lit ''B'', token_ent_type = lit ''ORG'', token_shape = [120, 120],
     token_is_alpha = True, token_is_stop = False\<rparr>"

definition recorded_token_1 :: token where
  "recorded_token_1 = \<lparr>token_text = [20250, 31038], token_lemma = [20250, 31038],
     token_pos = lit ''NOUN'', token_tag = [21517, 35422, 45, 26222, 36890, 21517, 35422, 45,
       19968, 33324],
     token_dep = lit ''compound'', token_morph = [82, 101, 97, 100, 105, 110, 103, 61, 12460,
       12452, 12471, 12515],
     token_ent_iob = lit ''I'', token_ent_type = lit ''ORG'', token_shape = [120, 120],
     token_is_alpha = True, token_is_stop = False\<rparr>"

definition recorded_token_2 :: token where
  "recorded_token_2 = \<lparr>token_text = [12458, 12540, 12503, 12531], token_lemma = [12458,
       12540, 12503, 12531],
     token_pos = lit ''NOUN'', token_tag = [21517, 35422, 45, 26222, 36890, 21517, 35422, 45,
       12469, 22793, 24418, 29366, 35422, 21487, 33021],
     token_dep = lit ''compound'', token_morph = [82, 101, 97, 100, 105, 110, 103, 61, 12458,
       12540, 12503, 12531],
     token_ent_iob = lit ''I'', token_ent_type = lit ''ORG'', token_shape = [120, 120, 120,
       120],
     token_is_alpha = True, token_is_stop = False\<rparr>"

definition recorded_token_3 :: token where
  "recorded_token_3 = \<lparr>token_text = [65, 73], token_lemma = [65, 73],
     token_pos = lit ''NOUN'', token_tag = [21517, 35422, 45, 26222, 36890, 21517, 35422, 45,
       19968, 33324],
     token_dep = lit ''nsubj'', token_morph = [82, 101, 97, 100, 105, 110, 103, 61, 12456,
       12540, 12450, 12452],
     token_ent_iob = lit ''I'', token_ent_type = lit ''ORG'', token_shape = [88, 88],
     token_is_alpha = True, token_is_stop = False\<rparr>"

definition recorded_token_4 :: token where
  "recorded_token_4 = \<lparr>token_text = [12399], token_lemma = [12399],
     token_pos = lit ''ADP'', token_tag = [21161, 35422, 45, 20418, 21161, 35422],
     token_dep = lit ''case'', token_morph = [82, 101, 97, 100, 105, 110, 103, 61, 12495],
     token_ent_iob = lit ''O'', token_ent_type = [], token_shape = [120],
     token_is_alpha = True, token_is_stop = True\<rparr>"

definition recorded_token_5 :: token where
  "recorded_token_5 = \<lparr>token_text = [26481, 20140], token_lemma = [26481, 20140],
     token_pos = lit ''PROPN'', token_tag = [21517, 35422, 45, 22266, 26377, 21517, 35422, 45,
       22320, 21517, 45, 19968, 33324],
     token_dep = lit ''compound'', token_morph = [82, 101, 97, 100, 105, 110, 103, 61, 12488,
       12454, 12461, 12519, 12454],
     token_ent_iob = lit ''B'', token_ent_type = lit ''GPE'', token_shape = [120, 120],
     token_is_alpha = True, token_is_stop = False\<rparr>"

definition recorded_token_6 :: token where
  "recorded_token_6 = \<lparr>token_text = [37117], token_lemma = [37117],
     token_pos = lit ''NOUN'', token_tag = [21517, 35422, 45, 26222, 36890, 21517, 35422, 45,
       19968, 33324],
     token_dep = lit ''nmod'', token_morph = [82, 101, 97, 100, 105, 110, 103, 61, 12488],
     token_ent_iob = lit ''I'', token_ent_type = lit ''GPE'', token_shape = [120],
     token_is_alpha = True, token_is_stop = False\<rparr>"

definition recorded_token_7 :: token where
  "recorded_token_7 = \<lparr>token_text = [28171, 35895], token_lemma = [28171, 35895],
     token_pos = lit ''PROPN'', token_tag = [21517, 35422, 45, 22266, 26377, 21517, 35422, 45,
       22320, 21517, 45, 19968, 33324],
     token_dep = lit ''compound'', token_morph = [82, 101, 97, 100, 105, 110, 103, 61, 12471,
       12502, 12516],
     token_ent_iob = lit ''I'', token_ent_type = lit ''GPE'', token_shape = [120, 120],
     token_is_alpha = True, token_is_stop = False\<rparr>"

definition recorded_token_8 :: token where
  "recorded_token_8 = \<lparr>token_text = [21306], token_lemma = [21306],
     token_pos = lit ''NOUN'', token_tag = [25509, 23614, 36766, 45, 21517, 35422, 30340, 45,
       19968, 33324],
     token_dep = lit ''obl'', token_morph = [82, 101, 97, 100, 105, 110, 103, 61, 12463],
     token_ent_iob = lit ''I'', token_ent_type = lit ''GPE'', token_shape = [120],
     token_is_alpha = True, token_is_stop = False\<rparr>"

definition recorded_token_9 :: token where
  "recorded_token_9 = \<lparr>token_text = [12395], token_lemma = [12395],
     token_pos = lit ''ADP'', token_tag = [21161, 35422, 45, 26684, 21161, 35422],
     token_dep = lit ''case'', token_morph = [82, 101, 97, 100, 105, 110, 103, 61, 12491],
     token_ent_iob = lit ''O'', token_ent_type = [], token_shape = [120],
     token_is_alpha = True, token_is_stop = True\<rparr>"

definition recorded_token_10 :: token where
  "recorded_token_10 = \<lparr>token_text = [26412, 31038], token_lemma = [26412, 31038],
     token_pos = lit ''NOUN'', token_tag = [21517, 35422, 45, 26222, 36890, 21517, 35422, 45,
       19968, 33324],
     token_dep = lit ''obj'', token_morph = [82, 101, 97, 100, 105, 110, 103, 61, 12507, 12531,
       12471, 12515],
     token_ent_iob = lit ''O'', token_ent_type = [], token_shape = [120, 120],
     token_is_alpha = True, token_is_stop = False\<rparr>"

definition recorded_token_11 :: token where
  "recorded_token_11 = \<lparr>token_text = [12434], token_lemma = [12434],
     token_pos = lit ''ADP'', token_tag = [21161, 35422, 45, 26684, 21161, 35422],
     token_dep = lit ''case'', token_morph = [82, 101, 97, 100, 105, 110, 103, 61, 12530],
     token_ent_iob = lit ''O'', token_ent_type = [], token_shape = [120],
     token_is_alpha = True, token_is_stop = True\<rparr>"

definition recorded_token_12 :: token where
  "recorded_token_12 = \<lparr>token_text = [27083, 12360], token_lemma = [27083, 12360, 12427],
     token_pos = lit ''VERB'', token_tag = [21205, 35422, 45, 19968, 33324],
     token_dep = lit ''ROOT'', token_morph = [73, 110, 102, 108, 101, 99, 116, 105, 111, 110,
       61, 19979, 19968, 27573, 45, 12450, 34892, 59, 36899, 29992, 24418, 45, 19968, 33324,
       124, 82, 101, 97, 100, 105, 110, 103, 61, 12459, 12510, 12456],
     token_ent_iob = lit ''O'', token_ent_type = [], token_shape = [120, 120],
     token_is_alpha = True, token_is_stop = False\<rparr>"

definition recorded_token_13 :: token where
  "recorded_token_13 = \<lparr>token_text = [12390], token_lemma = [12390],
     token_pos = lit ''SCONJ'', token_tag = [21161, 35422, 45, 25509, 32154, 21161, 35422],
     token_dep = lit ''mark'', token_morph = [82, 101, 97, 100, 105, 110, 103, 61, 12486],
     token_ent_iob = lit ''O'', token_ent_type = [], token_shape = [120],
     token_is_alpha = True, token_is_stop = True\<rparr>"

definition recorded_token_14 :: token where
  "recorded_token_14 = \<lparr>token_text = [12356], token_lemma = [12356, 12427],
     token_pos = lit ''VERB'', token_tag = [21205, 35422, 45, 38750, 33258, 31435, 21487,
       33021],
     token_dep = lit ''fixed'', token_morph = [73, 110, 102, 108, 101, 99, 116, 105, 111, 110,
       61, 19978, 19968, 27573, 45, 12450, 34892, 59, 36899, 29992, 24418, 45, 19968, 33324,
       124, 82, 101, 97, 100, 105, 110, 103, 61, 12452],
     token_ent_iob = lit ''O'', token_ent_type = [], token_shape = [120],
     token_is_alpha = True, token_is_stop = True\<rparr>"

definition recorded_token_15 :: token where
  "recorded_token_15 = \<lparr>token_text = [12414, 12377], token_lemma = [12414, 12377],
     token_pos = lit ''AUX'', token_tag = [21161, 21205, 35422],
     token_dep = lit ''aux'', token_morph = [73, 110, 102, 108, 101, 99, 116, 105, 111, 110,
       61, 21161, 21205, 35422, 45, 12510, 12473, 59, 32066, 27490, 24418, 45, 19968, 33324,
       124, 82, 101, 97, 100, 105, 110, 103, 61, 12510, 12473],
     token_ent_iob = lit ''O'', token_ent_type = [], token_shape = [120, 120],
     token_is_alpha = True, token_is_stop = True\<rparr>"

definition recorded_token_16 :: token where
  "recorded_token_16 = \<lparr>token_text = [12290], token_lemma = [12290],
     token_pos = lit ''PUNCT'', token_tag = [35036, 21161, 35352, 21495, 45, 21477, 28857],
     token_dep = lit ''punct'', token_morph = [82, 101, 97, 100, 105, 110, 103, 61, 12290],
     token_ent_iob = lit ''O'', token_ent_type = [], token_shape = [12290],
     token_is_alpha = False, token_is_stop = False\<rparr>"

definition recorded_tokens :: "token list" where
  "recorded_tokens =
     [recorded_token_0, recorded_token_1, recorded_token_2, recorded_token_3,
      recorded_token_4, recorded_token_5, recorded_token_6, recorded_token_7,
      recorded_token_8, recorded_token_9, recorded_token_10, recorded_token_11,
      recorded_token_12, recorded_token_13, recorded_token_14, recorded_token_15,
      recorded_token_16]"

definition recorded_ent_0 :: span where
  "recorded_ent_0 =
     \<lparr>span_text = [26666, 24335, 20250, 31038, 12458, 12540, 12503, 12531, 65, 73],
      span_start_char = 0, span_end_char = 10, span_label = lit ''ORG''\<rparr>"

definition recorded_ent_1 :: span where
  "recorded_ent_1 =
     \<lparr>span_text = [26481, 20140, 37117, 28171, 35895, 21306],
      span_start_char = 11, span_end_char = 17, span_label = lit ''GPE''\<rparr>"

definition recorded_ents :: "span list" where
  "recorded_ents = [recorded_ent_0, recorded_ent_1]"

definition recorded_doc :: doc where
  "recorded_doc = \<lparr>doc_tokens = recorded_tokens, doc_ents = recorded_ents\<rparr>"

text \<open>
  The library as far as that run shows it: the model loads, the pipeline answers for the
  sentence of the notebook, and both renderings succeed. The markup of the two diagrams is
  not reproduced; a tag stands for each.
\<close>

definition recorded_nlp :: language where
  "recorded_nlp s =
     (if s = sentence then Inr recorded_doc else Inl (LibraryError (lit ''not recorded'')))"

definition recorded_env :: env where
  "recorded_env =
     \<lparr>spacy_load = (\<lambda>n. if n = model_name then Inr recorded_nlp
                          else Inl (LibraryError (lit ''not recorded''))),
      displacy_render = (\<lambda>d style opts. Inr (lit ''<'' @ style @ lit ''>''))\<rparr>"

text \<open>An installation without the model: \<open>spacy.load\<close> raises.\<close>

definition missing_model_env :: env where
  "missing_model_env =
     \<lparr>spacy_load = (\<lambda>n. Inl (LibraryError (lit ''E050''))),
      displacy_render = (\<lambda>d style opts. Inr [])\<rparr>"

subsection \<open>What a loop adds to the trace\<close>

definition loop_events :: "(token \<Rightarrow> pyval list) \<Rightarrow> doc \<Rightarrow> event list" where
  "loop_events f d =
     Call_iter d #
     concat (map (\<lambda>(i, t). [Call_next i, Print (line (f t))]) (enumerate 0 (doc_tokens d))) @
     [Call_next (length (doc_tokens d))]"

definition ents_events :: "doc \<Rightarrow> event list" where
  "ents_events d = Get_ents d # map (\<lambda>x. Print (line (ent_args x))) (doc_ents d)"

definition events_before_render :: "str \<Rightarrow> doc \<Rightarrow> event list" where
  "events_before_render s d =
     [Call_load model_name, Call_nlp s] @ loop_events annotation_args d @
     loop_events tokenization_args d @ Print (line [PStr pos_header]) # loop_events pos_args d"

definition events_between_renders :: "doc \<Rightarrow> event list" where
  "events_between_renders d = ents_events d @ loop_events ent_iob_args d"

subsection \<open>The annotation capability\<close>

text \<open>
  Lines 26 and 29 taken together: the model is loaded and the pipeline is applied to the
  string, and either step can raise. This is the one annotation capability, from a string
  to a \<open>Doc\<close>, that the spec speaks of.
\<close>

definition annotate :: "env \<Rightarrow> str \<Rightarrow> error + doc" where
  "annotate e s = (case spacy_load e model_name of Inl err \<Rightarrow> Inl err | Inr p \<Rightarrow> p s)"

subsection \<open>A library that keeps whitespace out of the token texts\<close>





text \<open>
  The library of the recorded run with another renderer: the markup of a rendering differs
  from one call to the next (the stored diagram carries an identifier drawn for it).
\<close>

definition rerun_env :: env where
  "rerun_env = recorded_env\<lparr>displacy_render := (\<lambda>d style opts. Inr (lit ''<again>''))\<rparr>"

section \<open>Lemmas about the model\<close>

subsection \<open>The \<open>for\<close> statement visits every item once, in order\<close>

lemma for_each_from:
  "pos it \<le> length (items it) \<Longrightarrow>
   for_each asked body it st =
     asked (length (items it))
       (fold (\<lambda>(i, x) st. body x (asked i st))
          (enumerate (pos it) (drop (pos it) (items it))) st)"
proof (induction asked body it st rule: for_each.induct)
  case (1 asked body it st)
  show ?case
  proof (cases "pos it < length (items it)")
    case True
    then have d: "drop (pos it) (items it) = items it ! pos it # drop (Suc (pos it)) (items it)"
      by (simp add: Cons_nth_drop_Suc)
    from True have n: "next_item it = Some (items it ! pos it, it\<lparr>pos := Suc (pos it)\<rparr>)"
      by (simp add: next_item_def)
    from True have "pos (it\<lparr>pos := Suc (pos it)\<rparr>) \<le> length (items (it\<lparr>pos := Suc (pos it)\<rparr>))"
      by simp
    from "1.IH" [OF n refl this] show ?thesis
      by (subst for_each.simps) (simp add: n d)
  next
    case False
    with "1.prems" have e: "pos it = length (items it)"
      by simp
    from False have "next_item it = None"
      by (simp add: next_item_def)
    then show ?thesis
      by (subst for_each.simps) (simp add: e)
  qed
qed

lemma for_each_iter:
  "for_each asked body (iter xs) st =
     asked (length xs) (fold (\<lambda>(i, x) st. body x (asked i st)) (enumerate 0 xs) st)"
  using for_each_from [of "iter xs" asked body st] by (simp add: iter_def)

lemma fold_library_print:
  "fold (\<lambda>(i, x) st. py_print (f x) (library_asked i st)) (enumerate n xs) st =
     st\<lparr>out := out st @
       concat (map (\<lambda>(i, x). [Call_next i, Print (line (f x))]) (enumerate n xs))\<rparr>"
  by (induction xs arbitrary: n st) (simp_all add: py_print_def library_asked_def emit_def)

lemma fold_builtin_print:
  "fold (\<lambda>(i, x) st. py_print (f x) (builtin_asked i st)) (enumerate n xs) st =
     st\<lparr>out := out st @ map (\<lambda>x. Print (line (f x))) xs\<rparr>"
  by (induction xs arbitrary: n st) (simp_all add: py_print_def builtin_asked_def emit_def)

lemma library_print_loop:
  "for_each library_asked (\<lambda>x. py_print (f x)) (iter xs) st =
     st\<lparr>out := out st @
       concat (map (\<lambda>(i, x). [Call_next i, Print (line (f x))]) (enumerate 0 xs)) @
       [Call_next (length xs)]\<rparr>"
  by (simp add: for_each_iter fold_library_print) (simp add: library_asked_def emit_def)

lemma builtin_print_loop:
  "for_each builtin_asked (\<lambda>x. py_print (f x)) (iter xs) st =
     st\<lparr>out := out st @ map (\<lambda>x. Print (line (f x))) xs\<rparr>"
  by (simp add: for_each_iter fold_builtin_print) (simp add: builtin_asked_def)

subsection \<open>What each cell does to the kernel\<close>

lemma token_loop_bound:
  "v_doc st = Some d \<Longrightarrow>
   token_loop f st = Completed (st\<lparr>out := out st @ loop_events f d\<rparr>)"
  by (simp add: token_loop_def library_print_loop emit_def loop_events_def)

lemma cell_pos_table_bound:
  "v_doc st = Some d \<Longrightarrow>
   cell_pos_table st =
     Completed (st\<lparr>out := out st @ Print (line [PStr pos_header]) # loop_events pos_args d\<rparr>)"
  by (simp add: cell_pos_table_def token_loop_bound py_print_def emit_def)

lemma cell_ents_bound:
  "v_doc st = Some d \<Longrightarrow> cell_ents st = Completed (st\<lparr>out := out st @ ents_events d\<rparr>)"
  by (simp add: cell_ents_def builtin_print_loop emit_def ents_events_def)

lemma cell_load_eq:
  "cell_load e s st =
     (case spacy_load e model_name of
        Inl err \<Rightarrow> Raised err (st\<lparr>out := out st @ [Call_load model_name]\<rparr>)
      | Inr p \<Rightarrow>
          (case p s of
             Inl err \<Rightarrow>
               Raised err (st\<lparr>v_nlp := Some p, v_sentence := Some s,
                 out := out st @ [Call_load model_name, Call_nlp s]\<rparr>)
           | Inr d \<Rightarrow>
               Completed (st\<lparr>v_nlp := Some p, v_sentence := Some s, v_doc := Some d,
                 out := out st @ [Call_load model_name, Call_nlp s]\<rparr>)))"
  by (simp add: cell_load_def emit_def Let_def split: sum.splits)

lemma cell_render_dep_bound:
  "v_doc st = Some d \<Longrightarrow>
   cell_render_dep e st =
     (case displacy_render e d (lit ''dep'') options_literal of
        Inl err \<Rightarrow>
          Raised err (st\<lparr>v_options := Some options_literal,
            out := out st @ [Call_render d (lit ''dep'') options_literal]\<rparr>)
      | Inr m \<Rightarrow>
          Completed (st\<lparr>v_options := Some options_literal,
            out := out st @ [Call_render d (lit ''dep'') options_literal, Display m]\<rparr>))"
  by (simp add: cell_render_dep_def render_def emit_def Let_def split: sum.splits)

lemma cell_render_ent_bound:
  "v_doc st = Some d \<Longrightarrow> v_options st = Some opts \<Longrightarrow>
   cell_render_ent e st =
     (case displacy_render e d (lit ''ent'') opts of
        Inl err \<Rightarrow> Raised err (st\<lparr>out := out st @ [Call_render d (lit ''ent'') opts]\<rparr>)
      | Inr m \<Rightarrow> Completed (st\<lparr>out := out st @ [Call_render d (lit ''ent'') opts, Display m]\<rparr>))"
  by (simp add: cell_render_ent_def render_def emit_def Let_def split: sum.splits)

lemmas cell_simps =
  cell_load_eq cell_annotations_def cell_tokenization_def cell_ent_iob_def token_loop_bound
  cell_pos_table_bound cell_render_dep_bound cell_ents_bound cell_render_ent_bound

lemma line_ent_args:
  "line (ent_args x) =
     span_text x @ lit '' '' @ str_int (span_start_char x) @ lit '' '' @
     str_int (span_end_char x) @ lit '' '' @ span_label x @ lit ''\<newline>''"
  by (simp add: line_def ent_args_def)

subsection \<open>The whole run, case by case\<close>

lemma demo_from_eq:
  "demo_from e s st =
     (case spacy_load e model_name of
        Inl err \<Rightarrow> Raised err (st\<lparr>out := out st @ [Call_load model_name]\<rparr>)
      | Inr p \<Rightarrow>
          (case p s of
             Inl err \<Rightarrow>
               Raised err (st\<lparr>v_nlp := Some p, v_sentence := Some s,
                 out := out st @ [Call_load model_name, Call_nlp s]\<rparr>)
           | Inr d \<Rightarrow>
               (case displacy_render e d (lit ''dep'') options_literal of
                  Inl err \<Rightarrow>
                    Raised err (st\<lparr>v_nlp := Some p, v_sentence := Some s, v_doc := Some d,
                      v_options := Some options_literal,
                      out := out st @ events_before_render s d @
                        [Call_render d (lit ''dep'') options_literal]\<rparr>)
                | Inr m1 \<Rightarrow>
                    (case displacy_render e d (lit ''ent'') options_literal of
                       Inl err \<Rightarrow>
                         Raised err (st\<lparr>v_nlp := Some p, v_sentence := Some s,
                           v_doc := Some d, v_options := Some options_literal,
                           out := out st @ events_before_render s d @
                             [Call_render d (lit ''dep'') options_literal, Display m1] @
                             events_between_renders d @
                             [Call_render d (lit ''ent'') options_literal]\<rparr>)
                     | Inr m2 \<Rightarrow>
                         Completed (st\<lparr>v_nlp := Some p, v_sentence := Some s,
                           v_doc := Some d, v_options := Some options_literal,
                           out := out st @ events_before_render s d @
                             [Call_render d (lit ''dep'') options_literal, Display m1] @
                             events_between_renders d @
                             [Call_render d (lit ''ent'') options_literal, Display m2]\<rparr>)))))"
  unfolding demo_from_def cells_def
  by (simp add: next_cell_def cell_simps events_before_render_def events_between_renders_def
      split: sum.splits)

subsection \<open>Reading a trace\<close>

lemma printed_append: "printed (xs @ ys) = printed xs @ printed ys"
  by (induction xs rule: printed.induct) simp_all
lemma shown_append: "shown (xs @ ys) = shown xs @ shown ys"
  by (induction xs rule: shown.induct) simp_all
lemma load_calls_append: "load_calls (xs @ ys) = load_calls xs @ load_calls ys"
  by (induction xs rule: load_calls.induct) simp_all
lemma nlp_calls_append: "nlp_calls (xs @ ys) = nlp_calls xs @ nlp_calls ys"
  by (induction xs rule: nlp_calls.induct) simp_all
lemma render_requests_append:
  "render_requests (xs @ ys) = render_requests xs @ render_requests ys"
  by (induction xs rule: render_requests.induct) simp_all
lemma observed_docs_append: "observed_docs (xs @ ys) = observed_docs xs @ observed_docs ys"
  by (induction xs rule: observed_docs.induct) simp_all

lemma printed_Print: "printed (map (\<lambda>x. Print (f x)) xs) = map f xs"
  by (induction xs) simp_all

lemma printed_pulled:
  "printed (concat (map (\<lambda>(i, x). [Call_next i, Print (f x)]) (enumerate n xs))) = map f xs"
  by (induction xs arbitrary: n) simp_all

lemma load_calls_Print: "load_calls (map (\<lambda>x. Print (f x)) xs) = []"
  by (induction xs) simp_all

lemma load_calls_pulled:
  "load_calls (concat (map (\<lambda>(i, x). [Call_next i, Print (f x)]) (enumerate n xs))) = []"
  by (induction xs arbitrary: n) simp_all

lemma nlp_calls_Print: "nlp_calls (map (\<lambda>x. Print (f x)) xs) = []"
  by (induction xs) simp_all

lemma nlp_calls_pulled:
  "nlp_calls (concat (map (\<lambda>(i, x). [Call_next i, Print (f x)]) (enumerate n xs))) = []"
  by (induction xs arbitrary: n) simp_all

lemma render_requests_Print: "render_requests (map (\<lambda>x. Print (f x)) xs) = []"
  by (induction xs) simp_all

lemma render_requests_pulled:
  "render_requests (concat (map (\<lambda>(i, x). [Call_next i, Print (f x)]) (enumerate n xs))) = []"
  by (induction xs arbitrary: n) simp_all

lemma observed_docs_Print: "observed_docs (map (\<lambda>x. Print (f x)) xs) = []"
  by (induction xs) simp_all

lemma observed_docs_pulled:
  "observed_docs (concat (map (\<lambda>(i, x). [Call_next i, Print (f x)]) (enumerate n xs))) = []"
  by (induction xs arbitrary: n) simp_all

lemmas observer_simps =
  printed_append shown_append load_calls_append nlp_calls_append render_requests_append
  observed_docs_append printed_Print load_calls_Print nlp_calls_Print render_requests_Print
  observed_docs_Print printed_pulled load_calls_pulled nlp_calls_pulled render_requests_pulled
  observed_docs_pulled loop_events_def ents_events_def events_before_render_def
  events_between_renders_def

subsection \<open>The output area of one cell\<close>







subsection \<open>Facts about the recorded run\<close>

lemmas recorded_token_defs =
  recorded_token_0_def recorded_token_1_def recorded_token_2_def recorded_token_3_def
  recorded_token_4_def recorded_token_5_def recorded_token_6_def recorded_token_7_def
  recorded_token_8_def recorded_token_9_def recorded_token_10_def recorded_token_11_def
  recorded_token_12_def recorded_token_13_def recorded_token_14_def recorded_token_15_def
  recorded_token_16_def

lemma recorded_load: "spacy_load recorded_env model_name = Inr recorded_nlp"
  by (simp add: recorded_env_def)

lemma recorded_apply: "recorded_nlp sentence = Inr recorded_doc"
  by (simp add: recorded_nlp_def)

lemma recorded_render:
  "displacy_render recorded_env d style opts = Inr (lit ''<'' @ style @ lit ''>'')"
  by (simp add: recorded_env_def)


lemma recorded_doc_ents: "doc_ents recorded_doc = [recorded_ent_0, recorded_ent_1]"
  by (simp add: recorded_doc_def recorded_ents_def)

text \<open>
  The model writes what the notebook stores: the first line under the cell of line 75, and
  the header and the last line under the cell of line 179.
\<close>

lemma stored_lines_reproduced:
  "line (annotation_args recorded_token_0) =
     [26666, 24335, 32, 66, 45, 79, 82, 71, 32, 21517, 35422, 45, 26222, 36890, 21517,
      35422, 45, 19968, 33324, 32, 78, 79, 85, 78, 32, 99, 111, 109, 112, 111, 117, 110,
      100, 32, 82, 101, 97, 100, 105, 110, 103, 61, 12459, 12502, 12471, 12461, 10] \<and>
   line [PStr pos_header] =
     [84, 69, 88, 84, 9, 76, 69, 77, 77, 65, 9, 80, 79, 83, 9, 84, 65, 71, 9, 68, 69, 80, 9,
      83, 72, 65, 80, 69, 9, 65, 76, 80, 72, 65, 9, 83, 84, 79, 80, 10] \<and>
   line (pos_args recorded_token_16) =
     [12290, 32, 12290, 32, 80, 85, 78, 67, 84, 32, 35036, 21161, 35352, 21495, 45, 21477,
      28857, 32, 112, 117, 110, 99, 116, 32, 12290, 32, 70, 97, 108, 115, 101, 32, 70, 97,
      108, 115, 101, 10]"
  by (simp add: line_def annotation_args_def pos_args_def iob_type_def pos_header_def tab_def
      str_bool_def recorded_token_0_def recorded_token_16_def lit_def)

lemma recorded_doc_tokens: "doc_tokens recorded_doc = recorded_tokens"
  by (simp add: recorded_doc_def)

lemmas py_eval = str_int_def str_nat.simps lit_def

section \<open>The claims of the specification\<close>

text \<open>
  Claim C1. In the cell \<open>for ent in doc.ents: print(...)\<close>, whatever the kernel held
  before, the loop reads \<open>doc.ents\<close> once and then prints, for each entity span in order,
  one line made of the span's covered text, its start offset, its end offset and its label,
  separated by single spaces. Nothing else is added to the trace and no variable changes.
  The spans are a list, so there are finitely many lines.
\<close>

theorem ents_loop_prints_one_line_per_span:
  assumes "v_doc st = Some d"
  shows "cell_ents st =
           Completed (st\<lparr>out := out st @ Get_ents d #
             map (\<lambda>x. Print (span_text x @ lit '' '' @ str_int (span_start_char x) @ lit '' '' @
                     str_int (span_end_char x) @ lit '' '' @ span_label x @ lit ''\<newline>''))
               (doc_ents d)\<rparr>)"
  using assms by (simp add: cell_ents_bound ents_events_def line_ent_args)

text \<open>On the recorded \<open>Doc\<close> the loop prints the two lines stored in the notebook.\<close>

theorem ents_loop_prints_one_line_per_span_witness:
  "v_doc (fresh_kernel\<lparr>v_doc := Some recorded_doc\<rparr>) = Some recorded_doc \<and>
   printed (trace (cell_ents (fresh_kernel\<lparr>v_doc := Some recorded_doc\<rparr>))) =
     [[26666, 24335, 20250, 31038, 12458, 12540, 12503, 12531, 65, 73, 32, 48, 32, 49, 48, 32,
       79, 82, 71, 10],
      [26481, 20140, 37117, 28171, 35895, 21306, 32, 49, 49, 32, 49, 55, 32, 71, 80, 69, 10]]"
  using ents_loop_prints_one_line_per_span
    [of "fresh_kernel\<lparr>v_doc := Some recorded_doc\<rparr>" recorded_doc]
  by (simp add: fresh_kernel_def printed_Print recorded_doc_ents recorded_ent_0_def
      recorded_ent_1_def py_eval)

text \<open>
  Claim C2. In every run, whatever the library does, \<open>spacy.load\<close> is called exactly
  once; the pipeline is applied to the input string exactly once when the model loads
  and is never applied when loading raises; and every \<open>Doc\<close> that a loop or a rendering
  request is given is the one that this single application returned.
\<close>

theorem pipeline_applied_once:
  "load_calls (trace (demo e s)) = [model_name] \<and>
   nlp_calls (trace (demo e s)) =
     (case spacy_load e model_name of Inl err \<Rightarrow> [] | Inr p \<Rightarrow> [s]) \<and>
   list_all (\<lambda>d. \<exists>p. spacy_load e model_name = Inr p \<and> p s = Inr d)
     (observed_docs (trace (demo e s)))"
  by (simp add: demo_def demo_from_eq fresh_kernel_def observer_simps split: sum.splits)

theorem pipeline_applied_once_witness:
  "load_calls (trace (notebook recorded_env)) = [model_name] \<and>
   nlp_calls (trace (notebook recorded_env)) = [sentence] \<and>
   observed_docs (trace (notebook recorded_env)) = replicate 7 recorded_doc"
  using pipeline_applied_once [of recorded_env sentence]
  by (simp add: notebook_def demo_def demo_from_eq recorded_load recorded_apply
      recorded_render fresh_kernel_def observer_simps numeral_eq_Suc)

text \<open>
  Claim C3. The \<open>for\<close> statement over a sequence ends, and it is lazy and single-pass:
  it asks the iterator for one item, runs the body on that item, and only then asks for
  the next; every position is asked for once, in order, and the last request finds the
  iterator at its end. Each of the four token loops (lines 75, 120, 180 and 491), whatever
  the kernel held before, takes the iterator of the \<open>Doc\<close> once and then, token by token
  in the order of the \<open>Doc\<close>, requests the token and prints its one line before it
  requests the next; the cell of line 179 prints its header line first. A loop over a list
  built from the \<open>Doc\<close> beforehand would leave all requests ahead of the first line,
  which is another trace.
\<close>

theorem token_loops_print_one_line_per_token:
  assumes "v_doc st = Some d"
  shows "for_each asked body (iter (doc_tokens d)) st0 =
      asked (length (doc_tokens d))
        (fold (\<lambda>(i, t) st. body t (asked i st)) (enumerate 0 (doc_tokens d)) st0) \<and>
    cell_annotations st =
      Completed (st\<lparr>out := out st @ Call_iter d #
        concat (map (\<lambda>(i, t).
            [Call_next i,
             Print (token_text t @ lit '' '' @ token_ent_iob t @ lit ''-'' @ token_ent_type t @
               lit '' '' @ token_tag t @ lit '' '' @ token_pos t @ lit '' '' @ token_dep t @
               lit '' '' @ token_morph t @ lit ''\<newline>'')])
          (enumerate 0 (doc_tokens d))) @
        [Call_next (length (doc_tokens d))]\<rparr>) \<and>
    cell_tokenization st =
      Completed (st\<lparr>out := out st @ Call_iter d #
        concat (map (\<lambda>(i, t). [Call_next i, Print (token_text t @ lit ''\<newline>'')])
          (enumerate 0 (doc_tokens d))) @
        [Call_next (length (doc_tokens d))]\<rparr>) \<and>
    cell_pos_table st =
      Completed (st\<lparr>out := out st @
        Print (lit ''TEXT'' @ [9] @ lit ''LEMMA'' @ [9] @ lit ''POS'' @ [9] @ lit ''TAG'' @ [9] @
          lit ''DEP'' @ [9] @ lit ''SHAPE'' @ [9] @ lit ''ALPHA'' @ [9] @ lit ''STOP'' @
          lit ''\<newline>'') #
        Call_iter d #
        concat (map (\<lambda>(i, t).
            [Call_next i,
             Print (token_text t @ lit '' '' @ token_lemma t @ lit '' '' @ token_pos t @
               lit '' '' @ token_tag t @ lit '' '' @ token_dep t @ lit '' '' @ token_shape t @
               lit '' '' @ (if token_is_alpha t then lit ''True'' else lit ''False'') @
               lit '' '' @ (if token_is_stop t then lit ''True'' else lit ''False'') @
               lit ''\<newline>'')])
          (enumerate 0 (doc_tokens d))) @
        [Call_next (length (doc_tokens d))]\<rparr>) \<and>
    cell_ent_iob st =
      Completed (st\<lparr>out := out st @ Call_iter d #
        concat (map (\<lambda>(i, t).
            [Call_next i,
             Print (token_text t @ lit '' '' @ token_ent_iob t @ lit ''-'' @ token_ent_type t @
               lit ''\<newline>'')])
          (enumerate 0 (doc_tokens d))) @
        [Call_next (length (doc_tokens d))]\<rparr>)"
proof -
  have a: "line (annotation_args t) =
      token_text t @ lit '' '' @ token_ent_iob t @ lit ''-'' @ token_ent_type t @
      lit '' '' @ token_tag t @ lit '' '' @ token_pos t @ lit '' '' @ token_dep t @
      lit '' '' @ token_morph t @ lit ''\<newline>''" for t
    by (simp add: line_def annotation_args_def iob_type_def)
  have b: "line (tokenization_args t) = token_text t @ lit ''\<newline>''" for t
    by (simp add: line_def tokenization_args_def)
  have c: "line (pos_args t) =
      token_text t @ lit '' '' @ token_lemma t @ lit '' '' @ token_pos t @
      lit '' '' @ token_tag t @ lit '' '' @ token_dep t @ lit '' '' @ token_shape t @
      lit '' '' @ (if token_is_alpha t then lit ''True'' else lit ''False'') @
      lit '' '' @ (if token_is_stop t then lit ''True'' else lit ''False'') @
      lit ''\<newline>''" for t
    by (simp add: line_def pos_args_def str_bool_def)
  have h: "line [PStr pos_header] =
      lit ''TEXT'' @ [9] @ lit ''LEMMA'' @ [9] @ lit ''POS'' @ [9] @ lit ''TAG'' @ [9] @
      lit ''DEP'' @ [9] @ lit ''SHAPE'' @ [9] @ lit ''ALPHA'' @ [9] @ lit ''STOP'' @
      lit ''\<newline>''"
    by (simp add: line_def pos_header_def tab_def)
  have e: "line (ent_iob_args t) =
      token_text t @ lit '' '' @ token_ent_iob t @ lit ''-'' @ token_ent_type t @
      lit ''\<newline>''" for t
    by (simp add: line_def ent_iob_args_def iob_type_def)
  show ?thesis
    using assms
    by (simp only: for_each_iter cell_annotations_def cell_tokenization_def cell_ent_iob_def
        token_loop_bound cell_pos_table_bound loop_events_def a b c h e)
qed

text \<open>
  On the recorded \<open>Doc\<close> the tokenization loop makes 18 requests, for the positions 0
  to 17 in order, and prints the 17 lines stored in the notebook.
\<close>

theorem token_loops_print_one_line_per_token_witness:
  "v_doc (fresh_kernel\<lparr>v_doc := Some recorded_doc\<rparr>) = Some recorded_doc \<and>
   length (out (final (cell_tokenization (fresh_kernel\<lparr>v_doc := Some recorded_doc\<rparr>)))) = 36 \<and>
   printed (trace (cell_tokenization (fresh_kernel\<lparr>v_doc := Some recorded_doc\<rparr>))) =
     [[26666, 24335, 10], [20250, 31038, 10], [12458, 12540, 12503, 12531, 10], [65, 73, 10],
      [12399, 10], [26481, 20140, 10], [37117, 10], [28171, 35895, 10], [21306, 10],
      [12395, 10], [26412, 31038, 10], [12434, 10], [27083, 12360, 10], [12390, 10],
      [12356, 10], [12414, 12377, 10], [12290, 10]]"
  using token_loops_print_one_line_per_token
    [of "fresh_kernel\<lparr>v_doc := Some recorded_doc\<rparr>" recorded_doc]
  by (simp add: fresh_kernel_def printed_append printed_pulled recorded_doc_tokens
      recorded_tokens_def recorded_token_defs lit_def)

text \<open>
  Claim C4. When the model loads, the pipeline returns a \<open>Doc\<close> and the first rendering
  does not raise, the run asks \<open>displacy.render\<close> exactly twice: first with style
  \<open>"dep"\<close>, then with style \<open>"ent"\<close>, both times for the \<open>Doc\<close> that the pipeline
  returned and with the same options.
\<close>

theorem two_render_requests_on_one_doc:
  assumes "spacy_load e model_name = Inr p" and "p s = Inr d"
    and "displacy_render e d (lit ''dep'') options_literal = Inr m"
  shows "render_requests (trace (demo e s)) =
           [(d, lit ''dep'', options_literal), (d, lit ''ent'', options_literal)]"
  using assms
  by (simp add: demo_def demo_from_eq fresh_kernel_def observer_simps split: sum.splits)

theorem two_render_requests_on_one_doc_witness:
  "spacy_load recorded_env model_name = Inr recorded_nlp \<and>
   recorded_nlp sentence = Inr recorded_doc \<and>
   displacy_render recorded_env recorded_doc (lit ''dep'') options_literal =
     Inr (lit ''<'' @ lit ''dep'' @ lit ''>'') \<and>
   render_requests (trace (notebook recorded_env)) =
     [(recorded_doc, lit ''dep'', options_literal), (recorded_doc, lit ''ent'', options_literal)]"
  using two_render_requests_on_one_doc [OF recorded_load recorded_apply recorded_render]
  by (simp add: notebook_def recorded_load recorded_apply recorded_render)

text \<open>
  Claim C5. When the annotation capability raises for the input string, because the model
  does not load or because the pipeline raises, the run ends with that very exception:
  nothing is printed or displayed, no rendering is requested, no loop is started and
  \<open>doc\<close> stays unbound.
\<close>

theorem capability_failure_ends_run:
  assumes "annotate e s = Inl err"
  shows "raised (demo e s) = Some err \<and> shown (trace (demo e s)) = [] \<and>
         render_requests (trace (demo e s)) = [] \<and> observed_docs (trace (demo e s)) = [] \<and>
         v_doc (final (demo e s)) = None"
  using assms
  by (auto simp add: annotate_def demo_def demo_from_eq fresh_kernel_def split: sum.splits)

text \<open>Without the model the run of the notebook ends at \<open>spacy.load\<close>.\<close>

theorem capability_failure_ends_run_witness:
  "annotate missing_model_env sentence = Inl (LibraryError (lit ''E050'')) \<and>
   raised (notebook missing_model_env) = Some (LibraryError (lit ''E050'')) \<and>
   shown (trace (notebook missing_model_env)) = []"
proof -
  have h: "annotate missing_model_env sentence = Inl (LibraryError (lit ''E050''))"
    by (simp add: annotate_def missing_model_env_def)
  from capability_failure_ends_run [OF h] h
  show ?thesis by (simp add: notebook_def)
qed




text \<open>
  Claim C10. Two runs on the same input string against the same annotation capability
  print the same lines in the same order (token lines and entity lines alike) and make the
  same rendering requests. The two runs may start from any two kernels and may be given
  different markup by the renderer, as happens from one call of the renderer to the next;
  what they need to share is whether the first rendering raises, since an exception
  there ends a run before its entity lines.
\<close>

theorem runs_print_the_same:
  assumes "spacy_load e1 model_name = spacy_load e2 model_name"
    and "\<And>p d. spacy_load e1 model_name = Inr p \<Longrightarrow> p s = Inr d \<Longrightarrow>
           isl (displacy_render e1 d (lit ''dep'') options_literal) =
           isl (displacy_render e2 d (lit ''dep'') options_literal)"
  shows "printed (trace (demo_from e1 s (st1\<lparr>out := []\<rparr>))) =
           printed (trace (demo_from e2 s (st2\<lparr>out := []\<rparr>))) \<and>
         render_requests (trace (demo_from e1 s (st1\<lparr>out := []\<rparr>))) =
           render_requests (trace (demo_from e2 s (st2\<lparr>out := []\<rparr>)))"
proof (cases "spacy_load e2 model_name")
  case (Inl err)
  with assms(1) show ?thesis
    by (simp add: demo_from_eq)
next
  case (Inr p)
  note load2 = this
  with assms(1) have load1: "spacy_load e1 model_name = Inr p"
    by simp
  show ?thesis
  proof (cases "p s")
    case (Inl err)
    with load1 load2 show ?thesis
      by (simp add: demo_from_eq)
  next
    case (Inr d)
    note doc = this
    note same = assms(2) [OF load1 doc]
    show ?thesis
    proof (cases "displacy_render e1 d (lit ''dep'') options_literal")
      case (Inl err1)
      with same obtain err2
        where "displacy_render e2 d (lit ''dep'') options_literal = Inl err2"
        by (cases "displacy_render e2 d (lit ''dep'') options_literal") simp_all
      with Inl load1 load2 doc show ?thesis
        by (simp add: demo_from_eq observer_simps)
    next
      case (Inr m1)
      with same obtain m2
        where "displacy_render e2 d (lit ''dep'') options_literal = Inr m2"
        by (cases "displacy_render e2 d (lit ''dep'') options_literal") simp_all
      with Inr load1 load2 doc show ?thesis
        by (simp add: demo_from_eq observer_simps split: sum.splits)
    qed
  qed
qed

text \<open>
  The recorded run and a run whose renderer gives other markup print the same 71 lines
  and make the same two requests; their traces differ in the markup displayed.
\<close>

theorem runs_print_the_same_witness:
  "spacy_load recorded_env model_name = spacy_load rerun_env model_name \<and>
   printed (trace (notebook recorded_env)) = printed (trace (demo rerun_env sentence)) \<and>
   length (printed (trace (notebook recorded_env))) = 71 \<and>
   render_requests (trace (notebook recorded_env)) =
     render_requests (trace (demo rerun_env sentence)) \<and>
   trace (notebook recorded_env) \<noteq> trace (demo rerun_env sentence)"
proof -
  have l: "spacy_load recorded_env model_name = spacy_load rerun_env model_name"
    by (simp add: rerun_env_def)
  have r: "isl (displacy_render recorded_env d (lit ''dep'') options_literal) =
      isl (displacy_render rerun_env d (lit ''dep'') options_literal)" for d
    by (simp add: rerun_env_def recorded_env_def)
  have l2: "spacy_load rerun_env model_name = Inr recorded_nlp"
    by (simp add: rerun_env_def recorded_load)
  have r2: "displacy_render rerun_env d style opts = Inr (lit ''<again>'')" for d style opts
    by (simp add: rerun_env_def)
  have n: "length (printed (trace (notebook recorded_env))) = 71"
    by (simp add: notebook_def demo_def demo_from_eq recorded_load recorded_apply
        recorded_render fresh_kernel_def observer_simps recorded_doc_tokens recorded_tokens_def
        recorded_doc_ents)
  have d: "trace (notebook recorded_env) \<noteq> trace (demo rerun_env sentence)"
    by (simp add: notebook_def demo_def demo_from_eq recorded_load recorded_apply
        recorded_render l2 r2 fresh_kernel_def lit_def)
  from runs_print_the_same [of recorded_env rerun_env sentence fresh_kernel fresh_kernel, OF l r]
  have "printed (trace (notebook recorded_env)) = printed (trace (demo rerun_env sentence))"
    and "render_requests (trace (notebook recorded_env)) =
      render_requests (trace (demo rerun_env sentence))"
    by (simp_all add: notebook_def demo_def fresh_kernel_def)
  with l n d show ?thesis
    by (intro conjI)
qed

end
